theory Spec2Isabelle
  imports Main "HOL-Library.Char_ord" "HOL-Library.List_Lexorder" "HOL-Library.Product_Lexorder"
    "HOL-Library.Multiset"
begin

section \<open>Data model of the dashboard (src/app/main.py)\<close>

text \<open>
  A row of the data frame that \<^verbatim>\<open>load_data\<close> returns. The columns \<open>agency\<close>,
  \<open>published_at\<close>, \<open>title\<close> and \<open>url\<close> come from the remote dataset, the columns
  \<open>year\<close>, \<open>month\<close>, \<open>week\<close> and \<open>day\<close> are added by \<^verbatim>\<open>load_data\<close>.
  \<^item> \<open>agency\<close> is a Python string; strings are compared by code point, which is the
    lexicographic order on the characters of a \<open>char list\<close>.
  \<^item> \<open>published_at\<close> is a pandas timestamp, kept as its integer value (nanoseconds since
    1970-01-01T00:00).
  \<^item> \<open>title\<close> may be missing in a row (\<open>None\<close>): \<^verbatim>\<open>count()\<close> looks at exactly that.
  \<^item> the temporal bucket columns are kept by their position on the time line: the year number,
    the timestamp of the month start and of the week start, and the day as the number of days since
    1970-01-01. Only equality and order of bucket values matter to the code below.
  Agency and timestamp are present in every row: \<^verbatim>\<open>select_agencies\<close> sorts the agency names
  before anything else, which raises on a missing one, and the temporal columns are derived from
  the timestamp when the data is loaded.
  A data frame is the list of its rows, in row order.
\<close>

record article =
  agency :: string
  published_at :: int
  title :: "string option"
  url :: string
  year :: int
  month :: int
  week :: int
  day :: int

text \<open>The value of \<^verbatim>\<open>self.granularity_column\<close>: the lower-cased choice of the select box.\<close>

datatype granularity = Year | Month | Week | Day

fun granularity_column :: "granularity \<Rightarrow> article \<Rightarrow> int" where
  "granularity_column Year = year"
| "granularity_column Month = month"
| "granularity_column Week = week"
| "granularity_column Day = day"

text \<open>A row of the table of \<^verbatim>\<open>aggregate_by_agency\<close>, with its renamed columns.\<close>

record count_row =
  Bucket :: int
  Agency :: string
  Count :: int

section \<open>The pandas operations the code calls\<close>

text \<open>\<^verbatim>\<open>Series.isin(values)\<close>: membership of each entry in the given values.\<close>

definition isin :: "'a \<Rightarrow> 'a list \<Rightarrow> bool" where
  "isin x values = (x \<in> set values)"

text \<open>\<^verbatim>\<open>unique()\<close>: the distinct values in order of first appearance.\<close>

definition unique :: "'a list \<Rightarrow> 'a list" where
  "unique xs = rev (remdups (rev xs))"

text \<open>
  The group keys of \<^verbatim>\<open>groupby\<close> (with its default \<^verbatim>\<open>sort=True\<close>): the distinct
  observed keys in ascending order.
\<close>

definition group_keys :: "'a::linorder list \<Rightarrow> 'a list" where
  "group_keys xs = sort (remdups xs)"

text \<open>
  \<^verbatim>\<open>value_counts()\<close>: one entry per distinct value with its number of occurrences, ordered
  by descending count.
\<close>

definition value_counts :: "'a list \<Rightarrow> ('a \<times> int) list" where
  "value_counts s =
     sort_key (\<lambda>e. - snd e) (map (\<lambda>v. (v, int (length (filter (\<lambda>x. x = v) s)))) (unique s))"

text \<open>\<^verbatim>\<open>sort_index()\<close>: the entries in ascending order of their index label.\<close>

definition sort_index :: "('a::linorder \<times> 'b) list \<Rightarrow> ('a \<times> 'b) list" where
  "sort_index s = sort_key fst s"

text \<open>
  \<^verbatim>\<open>Series.nlargest(n)\<close> with its default \<^verbatim>\<open>keep='first'\<close>, as pandas documents it: the
  first \<open>n\<close> entries in descending order of value, entries of equal value in their order of
  appearance; no entry for \<open>n \<le> 0\<close>. The order of appearance among equal values is taken for
  every \<open>n\<close>, also for an \<open>n\<close> that is at least the length of the series, where pandas sorts the
  whole series.
\<close>

definition nlargest :: "int \<Rightarrow> ('k \<times> int) list \<Rightarrow> ('k \<times> int) list" where
  "nlargest n s = (if n \<le> 0 then [] else take (nat n) (sort_key (\<lambda>e. - snd e) s))"

text \<open>
  A Python slice \<^verbatim>\<open>[start:stop]\<close> on a sequence of length \<open>len\<close>: a negative bound counts
  from the end, and every bound is clamped to \<open>0 .. len\<close>. A slice never raises.
\<close>

definition slice_bound :: "int \<Rightarrow> nat \<Rightarrow> nat" where
  "slice_bound i len = (if i < 0 then nat (max (i + int len) 0) else min (nat i) len)"

definition iloc :: "int \<Rightarrow> int \<Rightarrow> 'a list \<Rightarrow> 'a list" where
  "iloc start stop xs =
     (let a = slice_bound start (length xs); b = slice_bound stop (length xs)
      in take (b - a) (drop a xs))"

section \<open>Filter engine\<close>

text \<open>Line 318 of \<^verbatim>\<open>run\<close>: the rows whose agency is one of the selected agencies.\<close>

definition select_rows :: "string list \<Rightarrow> article list \<Rightarrow> article list" where
  "select_rows selected_agencies df = filter (\<lambda>a. isin (agency a) selected_agencies) df"

definition filter_data :: "article list \<Rightarrow> int \<times> int \<Rightarrow> article list" where
  "filter_data df selected_range =
     filter (\<lambda>a. day a \<ge> fst selected_range \<and> day a \<le> snd selected_range) df"

text \<open>The two filters as \<^verbatim>\<open>run\<close> chains them (lines 315-318 and 339).\<close>

definition filtering_pipeline :: "article list \<Rightarrow> string list \<Rightarrow> int \<times> int \<Rightarrow> article list" where
  "filtering_pipeline dataset selected_agencies selected_range =
     filter_data (select_rows selected_agencies dataset) selected_range"

section \<open>Aggregator\<close>

definition aggregate_data :: "granularity \<Rightarrow> article list \<Rightarrow> (int \<times> int) list" where
  "aggregate_data g filtered_df =
     sort_index (value_counts (map (granularity_column g) filtered_df))"

text \<open>
  \<^verbatim>\<open>groupby([granularity_column, "agency"]).size()\<close>: one row per observed pair of bucket and
  agency, pairs ascending, with the number of rows of that pair.
\<close>

definition aggregate_by_agency :: "granularity \<Rightarrow> article list \<Rightarrow> count_row list" where
  "aggregate_by_agency g filtered_df =
     map (\<lambda>k. \<lparr>Bucket = fst k, Agency = snd k,
               Count = int (length (filter (\<lambda>a. (granularity_column g a, agency a) = k) filtered_df))\<rparr>)
         (group_keys (map (\<lambda>a. (granularity_column g a, agency a)) filtered_df))"

section \<open>Rank selector\<close>

text \<open>
  \<^verbatim>\<open>data.groupby("Agency")["Count"].sum()\<close>: one entry per agency, agencies ascending by
  name, with the sum of the counts of the agency's rows.
\<close>

definition agency_total :: "count_row list \<Rightarrow> string \<Rightarrow> int" where
  "agency_total data g = sum_list (map Count (filter (\<lambda>r. Agency r = g) data))"

definition groupby_sum :: "count_row list \<Rightarrow> (string \<times> int) list" where
  "groupby_sum data = map (\<lambda>g. (g, agency_total data g)) (group_keys (map Agency data))"

text \<open>
  \<^verbatim>\<open>filtered_df.groupby("agency")["title"].count()\<close>: one entry per agency, agencies
  ascending by name, with the number of the agency's rows whose title is not missing.
\<close>

definition title_count :: "article list \<Rightarrow> string \<Rightarrow> int" where
  "title_count filtered_df g =
     int (length (filter (\<lambda>a. agency a = g \<and> title a \<noteq> None) filtered_df))"

definition groupby_count :: "article list \<Rightarrow> (string \<times> int) list" where
  "groupby_count filtered_df =
     map (\<lambda>g. (g, title_count filtered_df g)) (group_keys (map agency filtered_df))"

text \<open>
  The expression both variants share (lines 201-207 and 249-255):
  \<^verbatim>\<open>totals.nlargest(rank_range[1]).iloc[rank_range[0] - 1 : rank_range[1]].index\<close>.
\<close>

definition top_agencies :: "(string \<times> int) list \<Rightarrow> int \<times> int \<Rightarrow> string list" where
  "top_agencies totals rank_range =
     map fst (iloc (fst rank_range - 1) (snd rank_range) (nlargest (snd rank_range) totals))"

text \<open>
  \<^verbatim>\<open>plot_by_agency\<close>, up to line 208: the rows of the table that are handed to the chart.
  What follows in the source only renders the bucket labels and draws.
\<close>

definition plot_by_agency :: "count_row list \<Rightarrow> int \<times> int \<Rightarrow> count_row list" where
  "plot_by_agency data rank_range =
     filter (\<lambda>r. isin (Agency r) (top_agencies (groupby_sum data) rank_range)) data"

text \<open>Lines 249-258 of \<^verbatim>\<open>display_filtered_articles\<close>: the data frame \<^verbatim>\<open>filtered_articles\<close>.\<close>

definition filtered_articles :: "article list \<Rightarrow> int \<times> int \<Rightarrow> article list" where
  "filtered_articles filtered_df rank_range =
     filter (\<lambda>a. isin (agency a) (top_agencies (groupby_count filtered_df) rank_range)) filtered_df"

section \<open>Article table\<close>

text \<open>
  \<^verbatim>\<open>sort_values(by=["published_at", "agency"], ascending=[False, True])\<close>: a stable sort,
  by timestamp descending and then by agency ascending.
\<close>

definition sort_values :: "article list \<Rightarrow> article list" where
  "sort_values df = sort_key (\<lambda>a. (- published_at a, agency a)) df"

text \<open>
  \<^verbatim>\<open>strftime("%d/%m/%Y")\<close> of a timestamp: the day of its calendar date (proleptic Gregorian
  calendar), the month and the year, zero-padded to two, two and four digits.
\<close>

definition civil_from_days :: "int \<Rightarrow> int \<times> int \<times> int" where
  "civil_from_days z0 =
     (let z = z0 + 719468;
          era = z div 146097;
          doe = z - era * 146097;
          yoe = (doe - doe div 1460 + doe div 36524 - doe div 146096) div 365;
          doy = doe - (365 * yoe + yoe div 4 - yoe div 100);
          mp = (5 * doy + 2) div 153;
          d = doy - (153 * mp + 2) div 5 + 1;
          m = (if mp < 10 then mp + 3 else mp - 9);
          y = yoe + era * 400 + (if m \<le> 2 then 1 else 0)
      in (y, m, d))"

definition digit_char :: "int \<Rightarrow> char" where
  "digit_char n = ''0123456789'' ! nat (n mod 10)"

definition strftime_dmY :: "int \<Rightarrow> string" where
  "strftime_dmY ts =
     (case civil_from_days (ts div 86400000000000) of (y, m, d) \<Rightarrow>
        [digit_char (d div 10), digit_char d, CHR ''/'',
         digit_char (m div 10), digit_char m, CHR ''/'',
         digit_char (y div 1000), digit_char (y div 100), digit_char (y div 10), digit_char y])"

text \<open>
  \<^verbatim>\<open>display_filtered_articles\<close>: the rows of the displayed table, with the columns
  \<^verbatim>\<open>published_date\<close>, \<^verbatim>\<open>agency\<close>, \<^verbatim>\<open>title\<close> and \<^verbatim>\<open>url\<close>.
\<close>

definition display_filtered_articles ::
  "article list \<Rightarrow> int \<times> int \<Rightarrow> (string \<times> string \<times> string option \<times> string) list" where
  "display_filtered_articles filtered_df rank_range =
     (let sorted_articles = sort_values (filtered_articles filtered_df rank_range)
      in map (\<lambda>a. (strftime_dmY (published_at a), agency a, title a, url a)) sorted_articles)"

section \<open>Day range selector\<close>

text \<open>
  \<^verbatim>\<open>Series.min()\<close> and \<^verbatim>\<open>Series.max()\<close> of the day column; an empty column has neither
  (pandas answers NaN).
\<close>

definition get_min_max_values :: "article list \<Rightarrow> int option \<times> int option" where
  "get_min_max_values df =
     (case map day df of
        [] \<Rightarrow> (None, None)
      | d # ds \<Rightarrow> (Some (fold min ds d), Some (fold max ds d)))"

text \<open>
  The call of the day slider in \<^verbatim>\<open>run\<close> (lines 324-336), as its bounds and its default
  value: \<^verbatim>\<open>min_value\<close> is the constant 2000-01-01 (day 10957), \<^verbatim>\<open>max_value\<close> is the
  largest day of the data frame, and the default is the pair of 2010-01-01 (day 14610) and
  \<^verbatim>\<open>max_value\<close>. The smallest day is discarded. There is no slider for an empty data frame,
  whose largest day is NaN.
\<close>

definition day_slider :: "article list \<Rightarrow> ((int \<times> int) \<times> (int \<times> int)) option" where
  "day_slider df =
     (case snd (get_min_max_values df) of
        None \<Rightarrow> None
      | Some max_value \<Rightarrow> Some ((10957, max_value), (14610, max_value)))"

text \<open>
  What a range slider answers, given its bounds and its default value: a pair inside the bounds.
  This is the slider whose default value lies inside its bounds; for a default outside the bounds
  the model offers no range.
\<close>

definition slider_offers :: "(int \<times> int) \<times> (int \<times> int) \<Rightarrow> int \<times> int \<Rightarrow> bool" where
  "slider_offers w r =
     (fst (fst w) \<le> fst (snd w) \<and> fst (snd w) \<le> snd (snd w) \<and> snd (snd w) \<le> snd (fst w)
      \<and> fst (fst w) \<le> fst r \<and> fst r \<le> snd r \<and> snd r \<le> snd (fst w))"

text \<open>
  The ranges that \<^verbatim>\<open>run\<close> can hand to \<^verbatim>\<open>filter_data\<close> for a dataset and a selection of
  agencies: the slider is built on the rows of the selected agencies.
\<close>

definition selectable_range :: "article list \<Rightarrow> string list \<Rightarrow> int \<times> int \<Rightarrow> bool" where
  "selectable_range dataset selected_agencies r =
     (case day_slider (select_rows selected_agencies dataset) of
        None \<Rightarrow> False
      | Some w \<Rightarrow> slider_offers w r)"

section \<open>The rank window in the words of the specification\<close>

text \<open>
  The agencies in descending order of their total, agencies of equal total in the order of the
  totals.
\<close>

definition ranking :: "(string \<times> int) list \<Rightarrow> string list" where
  "ranking totals = map fst (sort_key (\<lambda>e. - snd e) totals)"

text \<open>Take the top \<open>high\<close> agencies, then drop the first \<open>low - 1\<close> of that ordered list.\<close>

definition spec_rank_window :: "(string \<times> int) list \<Rightarrow> int \<Rightarrow> int \<Rightarrow> string list" where
  "spec_rank_window totals low high = drop (nat (low - 1)) (take (nat high) (ranking totals))"

section \<open>Sample data\<close>

text \<open>
  Three articles of the agencies A and B, published on 2021-01-01 (day 18628, a Friday) and
  2021-01-02 (day 18629); the week of both days starts on Monday 2020-12-28.
\<close>

definition news_a1 :: article where
  "news_a1 = \<lparr>agency = ''A'', published_at = 1609459200000000000, title = Some ''t1'',
     url = ''u1'', year = 2021, month = 1609459200000000000, week = 1609113600000000000,
     day = 18628\<rparr>"

definition news_a2 :: article where
  "news_a2 = \<lparr>agency = ''A'', published_at = 1609545600000000000, title = Some ''t2'',
     url = ''u2'', year = 2021, month = 1609459200000000000, week = 1609113600000000000,
     day = 18629\<rparr>"

definition news_b1 :: article where
  "news_b1 = \<lparr>agency = ''B'', published_at = 1609459200000000000, title = Some ''t3'',
     url = ''u3'', year = 2021, month = 1609459200000000000, week = 1609113600000000000,
     day = 18628\<rparr>"

definition news :: "article list" where
  "news = [news_a1, news_a2, news_b1]"

text \<open>The table of counts by agency and day of these three articles.\<close>

definition news_counts :: "count_row list" where
  "news_counts =
     [\<lparr>Bucket = 18628, Agency = ''A'', Count = 1\<rparr>,
      \<lparr>Bucket = 18628, Agency = ''B'', Count = 1\<rparr>,
      \<lparr>Bucket = 18629, Agency = ''A'', Count = 1\<rparr>]"

text \<open>
  Two articles of agency C that have no title, published on the same two days; with the titled
  article of agency B they make a filtered set in which C has the most articles.
\<close>

definition news_c1 :: article where
  "news_c1 = \<lparr>agency = ''C'', published_at = 1609459200000000000, title = None,
     url = ''u4'', year = 2021, month = 1609459200000000000, week = 1609113600000000000,
     day = 18628\<rparr>"

definition news_c2 :: article where
  "news_c2 = \<lparr>agency = ''C'', published_at = 1609545600000000000, title = None,
     url = ''u5'', year = 2021, month = 1609459200000000000, week = 1609113600000000000,
     day = 18629\<rparr>"

definition untitled_news :: "article list" where
  "untitled_news = [news_b1, news_c1, news_c2]"

section \<open>Facts about grouping, sorting and slicing\<close>

lemma set_group_keys: "set (group_keys xs) = set xs"
  by (simp add: group_keys_def)

lemma distinct_group_keys: "distinct (group_keys xs)"
  by (simp add: group_keys_def)


lemma length_group_keys: "length (group_keys xs) = card (set xs)"
  by (metis distinct_card distinct_group_keys set_group_keys)

lemma set_unique: "set (unique xs) = set xs"
  by (simp add: unique_def)

lemma distinct_unique: "distinct (unique xs)"
  by (simp add: unique_def)

lemma length_filter_key: "length (filter (\<lambda>a. f a = k) xs) = count_list (map f xs) k"
  by (induction xs) auto

lemma sum_group_sizes:
  assumes "distinct ks" and "set ks = f ` set xs"
  shows "(\<Sum>k\<leftarrow>ks. int (length (filter (\<lambda>a. f a = k) xs))) = int (length xs)"
proof -
  have "(\<Sum>k\<leftarrow>ks. int (length (filter (\<lambda>a. f a = k) xs)))
      = (\<Sum>k\<leftarrow>ks. int (count_list (map f xs) k))"
    by (simp add: length_filter_key)
  also have "\<dots> = (\<Sum>k\<in>set ks. int (count_list (map f xs) k))"
    using assms(1) by (simp add: sum_list_distinct_conv_sum_set)
  also have "\<dots> = int (\<Sum>k\<in>set (map f xs). count_list (map f xs) k)"
    using assms(2) by simp
  also have "\<dots> = int (length (map f xs))"
    by (simp add: sum_count_set)
  finally show ?thesis by simp
qed

lemma sum_list_insort_key:
  "sum_list (map g (insort_key f x xs)) = g x + sum_list (map g xs)"
  for g :: "'a \<Rightarrow> int"
  by (induction xs) auto

lemma sum_list_sort_key: "sum_list (map g (sort_key f xs)) = sum_list (map g xs)"
  for g :: "'a \<Rightarrow> int"
  by (induction xs) (auto simp: sum_list_insort_key)



lemma nlargest_pos: "0 < n \<Longrightarrow> nlargest n s = take (nat n) (sort_key (\<lambda>e. - snd e) s)"
  by (simp add: nlargest_def)

lemma iloc_window:
  assumes "1 \<le> low" and "length xs \<le> nat high"
  shows "iloc (low - 1) high xs = drop (nat (low - 1)) xs"
  using assms by (auto simp: iloc_def slice_bound_def Let_def min_def)

lemma iloc_empty:
  assumes "1 \<le> high" "high < low"
  shows "iloc (low - 1) high xs = []"
  using assms by (auto simp: iloc_def slice_bound_def Let_def min_def)


lemma top_agencies_reversed:
  assumes "high < low"
  shows "top_agencies totals (low, high) = []"
proof (cases "high \<le> 0")
  case True
  then show ?thesis by (simp add: top_agencies_def nlargest_def iloc_def)
next
  case False
  then show ?thesis using assms by (simp add: top_agencies_def iloc_empty)
qed

lemma distinct_map_sort_key: "distinct (map g (sort_key f xs)) = distinct (map g xs)"
  by (simp add: distinct_map)

lemma length_filter_map_eq:
  "length (filter (\<lambda>x. x = v) (map f xs)) = length (filter (\<lambda>a. f a = v) xs)"
  by (induction xs) auto

lemmas sample_defs = news_def news_counts_def news_a1_def news_a2_def news_b1_def

lemmas rank_defs = spec_rank_window_def ranking_def groupby_sum_def groupby_count_def
  agency_total_def title_count_def group_keys_def



lemma length_groupby_sum: "length (groupby_sum data) = card (Agency ` set data)"
  by (simp add: groupby_sum_def length_group_keys)

lemma length_groupby_count: "length (groupby_count df) = card (agency ` set df)"
  by (simp add: groupby_count_def length_group_keys)





lemma distinct_ranking:
  assumes "distinct (map fst totals)"
  shows "distinct (ranking totals)"
  using assms by (simp add: ranking_def distinct_map_sort_key)


lemma top_agencies_clamp:
  assumes "1 \<le> low" and "int (length totals) < high"
  shows "top_agencies totals (low, high) = drop (nat (low - 1)) (ranking totals)"
proof -
  have "0 < high" using assms(2) by linarith
  moreover have "length totals \<le> nat high" using assms(2) by linarith
  ultimately show ?thesis using assms(1)
    by (simp add: top_agencies_def nlargest_pos iloc_window ranking_def drop_map)
qed







lemma plot_by_agency_isin:
  "plot_by_agency data rr = filter (\<lambda>r. Agency r \<in> set (top_agencies (groupby_sum data) rr)) data"
  by (simp add: plot_by_agency_def isin_def)

lemma filtered_articles_isin:
  "filtered_articles df rr = filter (\<lambda>a. agency a \<in> set (top_agencies (groupby_count df) rr)) df"
  by (simp add: filtered_articles_def isin_def)




lemma fold_max_eq: "fold max ds d = Max (set (d # ds))" for d :: int
  by (simp only: Max.set_eq_fold)

lemma day_slider_eq:
  "day_slider df =
     (if df = [] then None
      else Some ((10957, Max (day ` set df)), (14610, Max (day ` set df))))"
proof (cases df)
  case Nil
  then show ?thesis by (simp add: day_slider_def get_min_max_values_def)
next
  case (Cons a as)
  have "fold max (map day as) (day a) = Max (set (day a # map day as))"
    by (rule fold_max_eq)
  then show ?thesis using Cons by (simp add: day_slider_def get_min_max_values_def)
qed

lemma title_count_titled:
  assumes "\<forall>a\<in>set filtered_df. title a \<noteq> None"
  shows "title_count filtered_df g = int (length (filter (\<lambda>a. agency a = g) filtered_df))"
proof -
  have "filter (\<lambda>a. agency a = g \<and> title a \<noteq> None) filtered_df
      = filter (\<lambda>a. agency a = g) filtered_df"
    using assms by (intro filter_cong) auto
  then show ?thesis by (simp add: title_count_def)
qed

lemma agency_total_aggregate:
  "agency_total (aggregate_by_agency gr filtered_df) g
     = int (length (filter (\<lambda>a. agency a = g) filtered_df))"
proof -
  let ?key = "\<lambda>a. (granularity_column gr a, agency a)"
  let ?keys = "group_keys (map ?key filtered_df)"
  let ?mine = "filter (\<lambda>a. agency a = g) filtered_df"
  have "agency_total (aggregate_by_agency gr filtered_df) g
      = (\<Sum>k\<leftarrow>filter (\<lambda>k. snd k = g) ?keys. int (length (filter (\<lambda>a. ?key a = k) filtered_df)))"
    by (simp add: agency_total_def aggregate_by_agency_def filter_map comp_def)
  also have "\<dots> = (\<Sum>k\<leftarrow>filter (\<lambda>k. snd k = g) ?keys. int (length (filter (\<lambda>a. ?key a = k) ?mine)))"
    by (rule arg_cong [where f = sum_list], rule map_cong [OF refl])
      (auto intro!: arg_cong [where f = length] filter_cong)
  also have "\<dots> = int (length ?mine)"
    by (rule sum_group_sizes) (auto simp: distinct_group_keys set_group_keys)
  finally show ?thesis .
qed

lemma news_counts_eq: "aggregate_by_agency Day news = news_counts"
  by (simp add: aggregate_by_agency_def sample_defs group_keys_def)

text \<open>The sample data run through the table and through a tie of two agencies.\<close>

lemma strftime_examples:
  "strftime_dmY 1609459200000000000 = ''01/01/2021''"
  "strftime_dmY 1609545600000000000 = ''02/01/2021''"
  "strftime_dmY 1709251199999999999 = ''29/02/2024''"
  by code_simp+

lemma display_example:
  "display_filtered_articles news (1, 2) =
     [(''02/01/2021'', ''A'', Some ''t2'', ''u2''),
      (''01/01/2021'', ''A'', Some ''t1'', ''u1''),
      (''01/01/2021'', ''B'', Some ''t3'', ''u3'')]"
proof -
  have "top_agencies (groupby_count news) (1, 2) = [''A'', ''B'']"
    by code_simp
  then have "filtered_articles news (1, 2) = news"
    by (simp add: filtered_articles_isin sample_defs)
  moreover have "sort_values news = [news_a2, news_a1, news_b1]"
    by (simp add: sort_values_def sample_defs)
  ultimately show ?thesis
    by (simp add: display_filtered_articles_def strftime_examples news_a1_def news_a2_def
        news_b1_def)
qed

lemma tie_example:
  "top_agencies (groupby_count [news_b1, news_a1]) (1, 1) = [''A'']"
  by code_simp

section \<open>Filter engine: the selected articles\<close>

text \<open>
  Claim C2. For every dataset, selection of agencies and day range, the filtering pipeline returns
  exactly the articles, in row order, whose agency is selected and whose day lies between the two
  bounds, both included. When no agency is selected, or the first day is after the last day, the
  result has no row. The two filters have no failing branch: a boolean mask and a membership test
  are defined on every row.
\<close>

theorem filtering_pipeline_exact:
  "filtering_pipeline dataset selected (first_day, last_day) =
     filter (\<lambda>a. agency a \<in> set selected \<and> first_day \<le> day a \<and> day a \<le> last_day) dataset
   \<and> (selected = [] \<or> last_day < first_day \<longrightarrow>
        filtering_pipeline dataset selected (first_day, last_day) = [])"
  by (auto simp: filtering_pipeline_def filter_data_def select_rows_def isin_def filter_empty_conv)

theorem filtering_pipeline_exact_witness:
  "filtering_pipeline news [] (18628, 18629) = []
   \<and> filtering_pipeline news [''A'', ''B''] (18629, 18628) = []
   \<and> filtering_pipeline news [''A''] (18628, 18628) = [news_a1]"
proof -
  have "filtering_pipeline news [] (18628, 18629) = []"
    using filtering_pipeline_exact [of news "[]" 18628 18629] by simp
  moreover have "filtering_pipeline news [''A'', ''B''] (18629, 18628) = []"
    using filtering_pipeline_exact [of news "[''A'', ''B'']" 18629 18628] by simp
  moreover have "filtering_pipeline news [''A''] (18628, 18628) = [news_a1]"
    using filtering_pipeline_exact [of news "[''A'']" 18628 18628]
    by (simp add: news_def news_a1_def news_a2_def news_b1_def)
  ultimately show ?thesis by simp
qed

section \<open>Aggregator: counts\<close>

text \<open>
  Claim C3. For every filtered set of articles and every granularity, the counts of the total
  aggregation add up to the number of articles, and so do the counts of the aggregation by agency.
\<close>

theorem counts_sum_to_rows:
  "sum_list (map snd (aggregate_data g filtered_df)) = int (length filtered_df)
   \<and> sum_list (map Count (aggregate_by_agency g filtered_df)) = int (length filtered_df)"
proof
  have "sum_list (map snd (aggregate_data g filtered_df))
      = (\<Sum>v\<leftarrow>unique (map (granularity_column g) filtered_df).
           int (length (filter (\<lambda>x. x = v) (map (granularity_column g) filtered_df))))"
    by (simp add: aggregate_data_def sort_index_def value_counts_def sum_list_sort_key comp_def)
  also have "\<dots> = int (length (map (granularity_column g) filtered_df))"
    by (rule sum_group_sizes [where f = "\<lambda>x. x"]) (simp_all add: distinct_unique set_unique)
  finally show "sum_list (map snd (aggregate_data g filtered_df)) = int (length filtered_df)"
    by simp
next
  have "sum_list (map Count (aggregate_by_agency g filtered_df))
      = (\<Sum>k\<leftarrow>group_keys (map (\<lambda>a. (granularity_column g a, agency a)) filtered_df).
           int (length (filter (\<lambda>a. (granularity_column g a, agency a) = k) filtered_df)))"
    by (simp add: aggregate_by_agency_def comp_def)
  also have "\<dots> = int (length filtered_df)"
    by (rule sum_group_sizes) (simp_all add: distinct_group_keys set_group_keys)
  finally show "sum_list (map Count (aggregate_by_agency g filtered_df)) = int (length filtered_df)" .
qed

text \<open>
  Claim C5. For every filtered set of articles and every granularity, the total aggregation has one
  row per bucket value that occurs among the articles, the count of a row is the number of articles
  in its bucket, and the bucket values of the rows are strictly ascending (hence unique).
\<close>

theorem aggregate_data_buckets:
  "sorted_wrt (<) (map fst (aggregate_data g filtered_df))
   \<and> set (aggregate_data g filtered_df) =
       (\<lambda>b. (b, int (length (filter (\<lambda>a. granularity_column g a = b) filtered_df))))
         ` (granularity_column g ` set filtered_df)"
proof
  have "sorted (map fst (aggregate_data g filtered_df))"
    by (simp add: aggregate_data_def sort_index_def)
  moreover have "distinct (map fst (aggregate_data g filtered_df))"
    by (simp add: aggregate_data_def sort_index_def value_counts_def distinct_map_sort_key
        comp_def distinct_unique)
  ultimately show "sorted_wrt (<) (map fst (aggregate_data g filtered_df))"
    by (simp add: strict_sorted_iff)
next
  show "set (aggregate_data g filtered_df) =
       (\<lambda>b. (b, int (length (filter (\<lambda>a. granularity_column g a = b) filtered_df))))
         ` (granularity_column g ` set filtered_df)"
    by (simp add: aggregate_data_def sort_index_def value_counts_def set_unique
        length_filter_map_eq image_image comp_def)
qed

section \<open>Rank selector: the window of agencies\<close>



text \<open>
  Claim C4. When \<open>high\<close> exceeds the number of distinct agencies, the rank selector returns the
  rows of all agencies from rank \<open>low\<close> on; when \<open>low > high\<close>, it returns no row. Both variants
  are total here: \<^verbatim>\<open>nlargest\<close> and the slice are defined for every pair of integers.
\<close>

theorem rank_selector_clamp:
  "(1 \<le> low \<and> int (card (Agency ` set data)) < high \<longrightarrow>
      plot_by_agency data (low, high) =
        filter (\<lambda>r. Agency r \<in> set (drop (nat (low - 1)) (ranking (groupby_sum data)))) data)
   \<and> (1 \<le> low \<and> int (card (agency ` set filtered_df)) < high \<longrightarrow>
      filtered_articles filtered_df (low, high) =
        filter (\<lambda>a. agency a \<in> set (drop (nat (low - 1)) (ranking (groupby_count filtered_df))))
          filtered_df)
   \<and> (high < low \<longrightarrow>
      plot_by_agency data (low, high) = [] \<and> filtered_articles filtered_df (low, high) = [])"
proof (intro conjI impI)
  assume "1 \<le> low \<and> int (card (Agency ` set data)) < high"
  then show "plot_by_agency data (low, high) =
      filter (\<lambda>r. Agency r \<in> set (drop (nat (low - 1)) (ranking (groupby_sum data)))) data"
    by (simp add: plot_by_agency_isin top_agencies_clamp length_groupby_sum)
next
  assume "1 \<le> low \<and> int (card (agency ` set filtered_df)) < high"
  then show "filtered_articles filtered_df (low, high) =
      filter (\<lambda>a. agency a \<in> set (drop (nat (low - 1)) (ranking (groupby_count filtered_df))))
        filtered_df"
    by (simp add: filtered_articles_isin top_agencies_clamp length_groupby_count)
next
  assume "high < low"
  then show "plot_by_agency data (low, high) = []"
    by (simp add: plot_by_agency_isin top_agencies_reversed)
next
  assume "high < low"
  then show "filtered_articles filtered_df (low, high) = []"
    by (simp add: filtered_articles_isin top_agencies_reversed)
qed

theorem rank_selector_clamp_witness:
  "plot_by_agency news_counts (2, 5) = [\<lparr>Bucket = 18628, Agency = ''B'', Count = 1\<rparr>]
   \<and> filtered_articles news (1, 5) = news
   \<and> plot_by_agency news_counts (3, 2) = []
   \<and> filtered_articles news (3, 2) = []"
proof -
  have chart_window: "(1::int) \<le> 2 \<and> int (card (Agency ` set news_counts)) < 5"
    and table_window: "(1::int) \<le> 1 \<and> int (card (agency ` set news)) < 5"
    by code_simp+
  have reversed: "(2::int) < 3" by simp
  have chart: "drop (nat (2 - 1)) (ranking (groupby_sum news_counts)) = [''B'']"
    by (simp add: rank_defs news_counts_def)
  have table: "drop (nat (1 - 1)) (ranking (groupby_count news)) = [''A'', ''B'']"
    by (simp add: rank_defs sample_defs)
  have "plot_by_agency news_counts (2, 5) =
      filter (\<lambda>r. Agency r \<in> set (drop (nat (2 - 1)) (ranking (groupby_sum news_counts))))
        news_counts"
    using rank_selector_clamp [of 2 news_counts 5 news] chart_window by blast
  then have "plot_by_agency news_counts (2, 5) = filter (\<lambda>r. Agency r \<in> set [''B'']) news_counts"
    by (simp only: chart)
  moreover have "filtered_articles news (1, 5) =
      filter (\<lambda>a. agency a \<in> set (drop (nat (1 - 1)) (ranking (groupby_count news)))) news"
    using rank_selector_clamp [of 1 news_counts 5 news] table_window by blast
  then have "filtered_articles news (1, 5) = filter (\<lambda>a. agency a \<in> set [''A'', ''B'']) news"
    by (simp only: table)
  moreover have "plot_by_agency news_counts (3, 2) = [] \<and> filtered_articles news (3, 2) = []"
    using rank_selector_clamp [of 3 news_counts 2 news] reversed by blast
  ultimately show ?thesis by (simp add: sample_defs)
qed




section \<open>Article table: order and date column\<close>


section \<open>Day range selector: the bounds\<close>

text \<open>
  Claim C7, as the code has it. A day range can be selected exactly when some article of the
  selected agencies exists, the largest day of these articles is not before the default start
  2010-01-01 (day 14610), the start of the range is not before 2000-01-01 (day 10957), and its
  end is not after that largest day, which is at most the largest day of the dataset. The lower
  bound is the constant, not the smallest day of the dataset.
\<close>

theorem day_range_bounds:
  "(selectable_range dataset selected r \<longleftrightarrow>
      select_rows selected dataset \<noteq> []
      \<and> 14610 \<le> Max (day ` set (select_rows selected dataset))
      \<and> 10957 \<le> fst r \<and> fst r \<le> snd r
      \<and> snd r \<le> Max (day ` set (select_rows selected dataset)))
   \<and> (selectable_range dataset selected r \<longrightarrow> 10957 \<le> fst r \<and> snd r \<le> Max (day ` set dataset))"
proof -
  have iff: "selectable_range dataset selected r \<longleftrightarrow>
      select_rows selected dataset \<noteq> []
      \<and> 14610 \<le> Max (day ` set (select_rows selected dataset))
      \<and> 10957 \<le> fst r \<and> fst r \<le> snd r
      \<and> snd r \<le> Max (day ` set (select_rows selected dataset))"
    by (simp add: selectable_range_def day_slider_eq slider_offers_def)
  have mono: "Max (day ` set (select_rows selected dataset)) \<le> Max (day ` set dataset)"
    if "select_rows selected dataset \<noteq> []"
  proof (rule Max_mono)
    show "day ` set (select_rows selected dataset) \<subseteq> day ` set dataset"
      by (auto simp: select_rows_def)
    show "day ` set (select_rows selected dataset) \<noteq> {}" using that by simp
    show "finite (day ` set dataset)" by simp
  qed
  have "10957 \<le> fst r \<and> snd r \<le> Max (day ` set dataset)"
    if "selectable_range dataset selected r"
  proof -
    from that iff have rows: "select_rows selected dataset \<noteq> []" and "10957 \<le> fst r"
      and "snd r \<le> Max (day ` set (select_rows selected dataset))"
      by simp_all
    then show ?thesis using mono [OF rows] by linarith
  qed
  with iff show ?thesis by blast
qed

theorem day_range_bounds_witness:
  "selectable_range news [''A''] (14610, 18629) \<and> (10957::int) \<le> 14610
   \<and> (18629::int) \<le> Max (day ` set news)"
proof -
  have "selectable_range news [''A''] (14610, 18629)"
    by (simp add: selectable_range_def day_slider_def slider_offers_def get_min_max_values_def
        select_rows_def isin_def sample_defs)
  with day_range_bounds [of news "[''A'']" "(14610, 18629)"] show ?thesis by simp
qed

text \<open>
  For the sample dataset, whose smallest day is 2021-01-01 (day 18628), the range starting on
  2000-01-01 can be selected: the start is not clamped to the smallest day of the dataset.
\<close>

theorem day_range_start_counterexample:
  "selectable_range news [''A'', ''B''] (10957, 18629)
   \<and> fst (get_min_max_values news) = Some 18628
   \<and> fst (10957 :: int, 18629 :: int) < 18628"
  by (simp add: selectable_range_def day_slider_def slider_offers_def get_min_max_values_def
      select_rows_def isin_def sample_defs)

section \<open>Table variant: the total per agency\<close>

text \<open>
  Claim C9 at a filtered set with untitled articles. Agency C has two articles, neither with a
  title: the table variant counts 0 for C, the aggregation by agency sums to 2, the chart variant
  ranks C first and the table variant ranks B first.
\<close>

theorem title_count_untitled:
  "title_count untitled_news ''C'' = 0
   \<and> int (length (filter (\<lambda>a. agency a = ''C'') untitled_news)) = 2
   \<and> agency_total (aggregate_by_agency Day untitled_news) ''C'' = 2
   \<and> top_agencies (groupby_count untitled_news) (1, 1) = [''B'']
   \<and> top_agencies (groupby_sum (aggregate_by_agency Day untitled_news)) (1, 1) = [''C'']"
  by code_simp

end
